theory Spec2Isabelle
  imports Main
begin

section \<open>Python values and exceptions\<close>

text \<open>
  A \<open>datetime.datetime\<close>: its calendar fields and its \<open>tzinfo\<close>. A time zone is
  modelled as a fixed offset from UTC in minutes (\<open>datetime.timezone\<close>); \<open>None\<close> is a
  naive value. The \<open>fold\<close> attribute is not modelled.
\<close>

record datetime =
  year :: nat
  month :: nat
  day :: nat
  hour :: nat
  minute :: nat
  second :: nat
  microsecond :: nat
  tzinfo :: "int option"

text \<open>
  A \<open>decimal.Decimal\<close>: a finite value with its sign, coefficient and exponent (the value
  is \<open>coefficient * 10 ^ exponent\<close>, negated if the sign is set), an infinity with its sign,
  or a NaN with its sign, whether it is signalling, and its diagnostic payload (0 for none).
\<close>

datatype decimal =
    DFinite (dec_sign: bool) (dec_coefficient: nat) (dec_exponent: int)
  | DInfinity bool
  | DNaN bool bool nat

text \<open>
  A class: its \<open>__name__\<close>, the name of the collection of a document class, and its base
  classes.
\<close>

datatype pyclass = PyClass (cls_name: string) (cls_collection: string) (cls_bases: "pyclass list")

text \<open>
  Keys of the dictionaries the fields read and build: strings and integers (list indices
  are the keys of the error map of a list field).
\<close>

datatype key = KStr string | KInt int

text \<open>
  The values the fields handle. \<open>Missing\<close> is marshmallow's \<open>missing\<close>. \<open>OidV\<close> is a
  \<open>bson.ObjectId\<close>, \<open>Decimal128V\<close> a \<open>bson.Decimal128\<close> (its bit pattern),
  \<open>DBRefV collection id\<close> a \<open>bson.DBRef\<close>. \<open>RefV c d pk\<close> is a reference object of
  class \<open>c\<close> (\<open>Reference\<close> or a subclass) to the document class \<open>d\<close>; \<open>DocV c created pk\<close>
  is a document instance of class \<open>c\<close>; \<open>EmbV c data\<close> is an embedded document instance
  of class \<open>c\<close>.
\<close>

datatype pyval =
    NoneV
  | Missing
  | BoolV bool
  | IntV int
  | StrV string
  | OidV string
  | DateV nat nat nat
  | DatetimeV datetime
  | DecimalV decimal
  | Decimal128V nat
  | ListV "pyval list"
  | DictV "(key \<times> pyval) list"
  | DBRefV string pyval
  | RefV pyclass pyclass pyval
  | DocV pyclass bool pyval
  | EmbV pyclass "(key \<times> pyval) list"

text \<open>
  The \<open>messages\<close> of a marshmallow \<open>ValidationError\<close>: a list of texts (a single text
  is stored as a one-element list) or a dictionary of nested messages. A text is kept as
  its message id and the arguments given to \<open>format\<close>.
\<close>

datatype msg = Msg string "pyval list"

datatype messages = MsgList "msg list" | MsgDict "(key \<times> messages) list"

text \<open>
  The exceptions that the modelled code raises or lets through. \<open>InvalidId\<close> is
  \<open>bson.errors.InvalidId\<close>, a \<open>BSONError\<close>; it is not a \<open>ValueError\<close>.
  \<open>DecimalInexact\<close>, \<open>DecimalOverflow\<close> and \<open>DecimalInvalidOperation\<close> are
  \<open>decimal.Inexact\<close>, \<open>decimal.Overflow\<close> and \<open>decimal.InvalidOperation\<close>.
\<close>

datatype exn =
    ValidationError messages
  | NotRegisteredDocumentError string
  | InvalidId
  | ValueError
  | TypeError
  | KeyError string
  | AttributeError
  | OverflowError
  | DecimalInexact
  | DecimalOverflow
  | DecimalInvalidOperation

text \<open>\<open>issubclass c c'\<close>, and \<open>isinstance\<close> for the instances that carry their class.\<close>

fun issubclass :: "pyclass \<Rightarrow> pyclass \<Rightarrow> bool" where
  "issubclass (PyClass n col bs) c' = (PyClass n col bs = c' \<or> (\<exists>b \<in> set bs. issubclass b c'))"

text \<open>
  Dictionaries are association lists in insertion order. \<open>dict_set\<close> is \<open>d[k] = v\<close>,
  \<open>dict_pop\<close> removes a key, \<open>dict_keys\<close> is the key set.
\<close>

fun dict_set :: "('k \<times> 'v) list \<Rightarrow> 'k \<Rightarrow> 'v \<Rightarrow> ('k \<times> 'v) list" where
  "dict_set [] k v = [(k, v)]"
| "dict_set ((k', v') # ps) k v = (if k' = k then (k, v) # ps else (k', v') # dict_set ps k v)"

definition dict_pop :: "('k \<times> 'v) list \<Rightarrow> 'k \<Rightarrow> ('k \<times> 'v) list" where
  "dict_pop d k = filter (\<lambda>p. fst p \<noteq> k) d"

definition dict_keys :: "('k \<times> 'v) list \<Rightarrow> 'k set" where
  "dict_keys d = set (map fst d)"

section \<open>Date and time values\<close>

definition is_leap :: "nat \<Rightarrow> bool" where
  "is_leap y = (y mod 4 = 0 \<and> (y mod 100 \<noteq> 0 \<or> y mod 400 = 0))"

definition days_in_month :: "nat \<Rightarrow> nat \<Rightarrow> nat" where
  "days_in_month y m =
     (if m = 2 then (if is_leap y then 29 else 28)
      else if m = 4 \<or> m = 6 \<or> m = 9 \<or> m = 11 then 30 else 31)"

text \<open>The values the constructor of \<open>datetime\<close> accepts (\<open>MINYEAR = 1\<close>, \<open>MAXYEAR = 9999\<close>).\<close>

definition valid_datetime :: "datetime \<Rightarrow> bool" where
  "valid_datetime d =
     (1 \<le> year d \<and> year d \<le> 9999 \<and> 1 \<le> month d \<and> month d \<le> 12 \<and>
      1 \<le> day d \<and> day d \<le> days_in_month (year d) (month d) \<and>
      hour d < 24 \<and> minute d < 60 \<and> second d < 60 \<and> microsecond d < 1000000)"

text \<open>
  The proleptic Gregorian ordinal of a date (\<open>_ymd2ord\<close> of the standard library) and the
  whole seconds from ordinal 0 to a datetime's wall-clock time.
\<close>

definition days_before_year :: "nat \<Rightarrow> nat" where
  "days_before_year y = (y - 1) * 365 + (y - 1) div 4 - (y - 1) div 100 + (y - 1) div 400"

definition days_before_month :: "nat \<Rightarrow> nat \<Rightarrow> nat" where
  "days_before_month y m = sum_list (map (days_in_month y) [1..<m])"

definition toordinal :: "datetime \<Rightarrow> nat" where
  "toordinal d = days_before_year (year d) + days_before_month (year d) (month d) + day d"

definition wall_seconds :: "datetime \<Rightarrow> nat" where
  "wall_seconds d = ((toordinal d * 24 + hour d) * 60 + minute d) * 60 + second d"

text \<open>
  \<open>d.replace(microsecond=us)\<close>: the constructor checks the range of the new field.
\<close>

definition replace_microsecond :: "datetime \<Rightarrow> nat \<Rightarrow> exn + datetime" where
  "replace_microsecond d us =
     (if us < 1000000 then Inr (d\<lparr>microsecond := us\<rparr>) else Inl ValueError)"

text \<open>
  \<open>d + timedelta(seconds=1)\<close>: the wall-clock time one second later, with the same
  microsecond and \<open>tzinfo\<close>; past the last second of year 9999 the standard library raises
  \<open>OverflowError\<close>.
\<close>

definition add_one_second :: "datetime \<Rightarrow> exn + datetime" where
  "add_one_second d =
     (if second d < 59 then Inr (d\<lparr>second := second d + 1\<rparr>)
      else if minute d < 59 then Inr (d\<lparr>minute := minute d + 1, second := 0\<rparr>)
      else if hour d < 23 then Inr (d\<lparr>hour := hour d + 1, minute := 0, second := 0\<rparr>)
      else if day d < days_in_month (year d) (month d)
        then Inr (d\<lparr>day := day d + 1, hour := 0, minute := 0, second := 0\<rparr>)
      else if month d < 12
        then Inr (d\<lparr>month := month d + 1, day := 1, hour := 0, minute := 0, second := 0\<rparr>)
      else if year d < 9999
        then Inr (d\<lparr>year := year d + 1, month := 1, day := 1,
                     hour := 0, minute := 0, second := 0\<rparr>)
      else Inl OverflowError)"

text \<open>
  \<open>round(n, -3)\<close> on a non-negative \<open>int\<close>: the nearest multiple of 1000, a tie going to
  the even multiple.
\<close>

definition py_round_thousands :: "nat \<Rightarrow> nat" where
  "py_round_thousands n =
     (let q = n div 1000; r = n mod 1000 in
      if r < 500 then 1000 * q
      else if 500 < r then 1000 * (q + 1)
      else if even q then 1000 * q else 1000 * (q + 1))"

text \<open>\<open>_round_to_millisecond\<close> of \<open>fields.py\<close>.\<close>

definition round_to_millisecond :: "datetime \<Rightarrow> exn + datetime" where
  "round_to_millisecond d =
     (let microseconds = py_round_thousands (microsecond d) in
      if microseconds = 1000000
      then (case replace_microsecond d 0 of
              Inl e \<Rightarrow> Inl e
            | Inr d0 \<Rightarrow> add_one_second d0)
      else replace_microsecond d microseconds)"

text \<open>The last second of year 9999, where no later second exists.\<close>

definition in_last_second :: "datetime \<Rightarrow> bool" where
  "in_last_second d =
     (year d = 9999 \<and> month d = 12 \<and> day d = 31 \<and> hour d = 23 \<and> minute d = 59 \<and> second d = 59)"

section \<open>Container fields: required-field validation\<close>











section \<open>The storage codec of a field\<close>

text \<open>
  \<open>BaseField.serialize_to_mongo\<close> and \<open>BaseField.deserialize_from_mongo\<close> of
  \<open>abstract.py\<close>, over the field's \<open>allow_none\<close> flag and its type-specific
  \<open>_serialize_to_mongo\<close> and \<open>_deserialize_from_mongo\<close>.
\<close>

definition serialize_to_mongo :: "bool \<Rightarrow> (pyval \<Rightarrow> exn + pyval) \<Rightarrow> pyval \<Rightarrow> exn + pyval" where
  "serialize_to_mongo allow_none ser obj =
     (if obj = NoneV \<and> allow_none then Inr NoneV
      else if obj = Missing then Inr Missing
      else ser obj)"


section \<open>Reference fields\<close>

text \<open>The attribute \<open>pk\<close> of a reference or a document instance.\<close>

fun attr_pk :: "pyval \<Rightarrow> exn + pyval" where
  "attr_pk (RefV c d pk) = Inr pk"
| "attr_pk (DocV c created pk) = Inr pk"
| "attr_pk _ = Inl AttributeError"

text \<open>
  A \<open>ReferenceField\<close>: the name of its target document (\<open>self.document\<close>), the lazily
  resolved class (\<open>self._document_cls\<close>) and \<open>self.reference_cls\<close>.
\<close>

record reference_field =
  rf_document :: string
  rf_document_cls :: "pyclass option"
  rf_reference_cls :: pyclass
  rf_allow_none :: bool

text \<open>
  The property \<open>document_cls\<close>: resolves the name through
  \<open>self.instance.retrieve_document\<close> (the parameter \<open>retrieve\<close>) on first use and keeps
  the class. It returns the outcome and the field as it is afterwards.
\<close>

definition document_cls ::
  "(pyval \<Rightarrow> exn + pyclass) \<Rightarrow> reference_field \<Rightarrow> (exn + pyclass) \<times> reference_field" where
  "document_cls retrieve f =
     (case rf_document_cls f of
        Some c \<Rightarrow> (Inr c, f)
      | None \<Rightarrow>
          (case retrieve (StrV (rf_document f)) of
             Inl e \<Rightarrow> (Inl e, f)
           | Inr c \<Rightarrow> (Inr c, f\<lparr>rf_document_cls := Some c\<rparr>)))"

text \<open>
  The end of \<open>ReferenceField._deserialize\<close>: the parent class's \<open>_deserialize\<close> (the
  parameter \<open>parent\<close>, of \<open>marshmallow_bonus.Reference\<close>) parses the identifier, and
  \<open>self.reference_cls(self.document_cls, value)\<close> wraps it.
\<close>

definition wrap_reference ::
  "(pyval \<Rightarrow> exn + pyclass) \<Rightarrow> (pyval \<Rightarrow> exn + pyval) \<Rightarrow> reference_field \<Rightarrow> pyval
     \<Rightarrow> (exn + pyval) \<times> reference_field" where
  "wrap_reference retrieve parent f v =
     (case parent v of
        Inl e \<Rightarrow> (Inl e, f)
      | Inr x \<Rightarrow>
          (case document_cls retrieve f of
             (Inl e, f') \<Rightarrow> (Inl e, f')
           | (Inr T, f') \<Rightarrow> (Inr (RefV (rf_reference_cls f') T x), f')))"

text \<open>
  \<open>ReferenceField._deserialize\<close> of \<open>fields.py\<close>. In the \<open>DBRef\<close> branch the code reads
  \<open>self._document_cls\<close>, not the property: on a field not yet resolved this is
  \<open>None.collection\<close>, an \<open>AttributeError\<close>; and the message of that branch is formatted
  with a positional argument for the named place \<open>{collection}\<close>, a \<open>KeyError\<close>.
\<close>

definition ReferenceField_deserialize ::
  "(pyval \<Rightarrow> exn + pyclass) \<Rightarrow> (pyval \<Rightarrow> exn + pyval) \<Rightarrow> reference_field \<Rightarrow> pyval
     \<Rightarrow> (exn + pyval) \<times> reference_field" where
  "ReferenceField_deserialize retrieve parent f v =
     (case v of
        NoneV \<Rightarrow> (Inr NoneV, f)
      | DBRefV collection ident \<Rightarrow>
          (case rf_document_cls f of
             None \<Rightarrow> (Inl AttributeError, f)
           | Some c \<Rightarrow>
               if cls_collection c \<noteq> collection then (Inl (KeyError ''collection''), f)
               else wrap_reference retrieve parent f ident)
      | RefV rc dc pk \<Rightarrow>
          (case document_cls retrieve f of
             (Inl e, f') \<Rightarrow> (Inl e, f')
           | (Inr T, f') \<Rightarrow>
               if dc \<noteq> T
               then (Inl (ValidationError (MsgList [Msg ''`{document}` reference expected.''
                                                      [StrV (cls_name T)]])), f')
               else if \<not> issubclass rc (rf_reference_cls f')
               then (Inr (RefV (rf_reference_cls f') dc pk), f')
               else (Inr (RefV rc dc pk), f'))
      | _ \<Rightarrow>
          (case document_cls retrieve f of
             (Inl e, f') \<Rightarrow> (Inl e, f')
           | (Inr T, f') \<Rightarrow>
               (case v of
                  DocV c created pk \<Rightarrow>
                    if issubclass c T
                    then (if \<not> created
                          then (Inl (ValidationError (MsgList
                                  [Msg ''Cannot reference a document that has not been created yet.''
                                       []])), f')
                          else wrap_reference retrieve parent f' pk)
                    else (Inl (ValidationError (MsgList [Msg ''`{document}` reference expected.''
                                                           [StrV (cls_name T)]])), f')
                | _ \<Rightarrow> wrap_reference retrieve parent f' v)))"

definition ReferenceField_serialize_to_mongo :: "reference_field \<Rightarrow> pyval \<Rightarrow> exn + pyval" where
  "ReferenceField_serialize_to_mongo f obj = serialize_to_mongo (rf_allow_none f) attr_pk obj"

text \<open>
  \<open>GenericReferenceField._document_cls\<close>: a \<open>NotRegisteredDocumentError\<close> of the registry
  becomes a \<open>ValidationError\<close>; any other exception passes.
\<close>

definition generic_document_cls :: "(pyval \<Rightarrow> exn + pyclass) \<Rightarrow> pyval \<Rightarrow> exn + pyclass" where
  "generic_document_cls retrieve class_name =
     (case retrieve class_name of
        Inl (NotRegisteredDocumentError _) \<Rightarrow>
          Inl (ValidationError (MsgList [Msg ''Unknown document `{document}`.'' [class_name]]))
      | Inl e \<Rightarrow> Inl e
      | Inr c \<Rightarrow> Inr c)"

text \<open>\<open>d[k]\<close> on a dictionary.\<close>

definition dict_getitem :: "(key \<times> pyval) list \<Rightarrow> key \<Rightarrow> exn + pyval" where
  "dict_getitem d k =
     (case map_of d k of
        None \<Rightarrow> Inl (KeyError (case k of KStr s \<Rightarrow> s | KInt _ \<Rightarrow> ''''))
      | Some v \<Rightarrow> Inr v)"

text \<open>
  \<open>GenericReferenceField._deserialize\<close> of \<open>fields.py\<close>. \<open>ObjectId\<close> is the constructor of
  \<open>bson.ObjectId\<close>, a parameter; of the exceptions it raises the code catches
  \<open>ValueError\<close> only.
\<close>

definition GenericReferenceField_deserialize ::
  "(pyval \<Rightarrow> exn + pyclass) \<Rightarrow> (pyval \<Rightarrow> exn + pyval) \<Rightarrow> pyclass \<Rightarrow> pyval \<Rightarrow> exn + pyval" where
  "GenericReferenceField_deserialize retrieve ObjectId reference_cls v =
     (case v of
        NoneV \<Rightarrow> Inr NoneV
      | RefV rc dc pk \<Rightarrow>
          if \<not> issubclass rc reference_cls then Inr (RefV reference_cls dc pk)
          else Inr (RefV rc dc pk)
      | DocV c created pk \<Rightarrow>
          if \<not> created
          then Inl (ValidationError (MsgList
                 [Msg ''Cannot reference a document that has not been created yet.'' []]))
          else Inr (RefV reference_cls c pk)
      | DictV d \<Rightarrow>
          if dict_keys d \<noteq> {KStr ''cls'', KStr ''id''}
          then Inl (ValidationError (MsgList
                 [Msg ''Generic reference must have `id` and `cls` fields.'' []]))
          else (case dict_getitem d (KStr ''id'') of
                  Inl e \<Rightarrow> Inl e
                | Inr raw_id \<Rightarrow>
                    (case ObjectId raw_id of
                       Inl ValueError \<Rightarrow> Inl (ValidationError (MsgList [Msg ''Invalid `id` field.'' []]))
                     | Inl e \<Rightarrow> Inl e
                     | Inr ident \<Rightarrow>
                         (case dict_getitem d (KStr ''cls'') of
                            Inl e \<Rightarrow> Inl e
                          | Inr class_name \<Rightarrow>
                              (case generic_document_cls retrieve class_name of
                                 Inl e \<Rightarrow> Inl e
                               | Inr dc \<Rightarrow> Inr (RefV reference_cls dc ident)))))
      | _ \<Rightarrow> Inl (ValidationError (MsgList [Msg ''Invalid value for generic reference field.'' []])))"

section \<open>Embedded field\<close>

text \<open>
  An \<open>EmbeddedField\<close>: the name of its embedded document (\<open>self.embedded_document\<close>) and
  the lazily resolved class (\<open>self._embedded_document_cls\<close>).
\<close>

record embedded_field =
  ef_embedded_document :: string
  ef_embedded_document_cls :: "pyclass option"

text \<open>
  What the field reads from its surroundings: \<open>self.instance.retrieve_embedded_document\<close>,
  the \<open>opts.offspring\<close> of a class, the \<open>opts.instance.retrieve_embedded_document\<close> of a
  class, and the constructor of an embedded document class, which loads the keyword
  arguments into the data of the new instance or raises.
\<close>

record embedded_env =
  retrieve_embedded_document :: "pyval \<Rightarrow> exn + pyclass"
  opts_offspring :: "pyclass \<Rightarrow> pyclass list"
  opts_retrieve_embedded_document :: "pyclass \<Rightarrow> pyval \<Rightarrow> exn + pyclass"
  load_kwargs :: "pyclass \<Rightarrow> (key \<times> pyval) list \<Rightarrow> exn + (key \<times> pyval) list"

text \<open>The property \<open>embedded_document_cls\<close>.\<close>

definition embedded_document_cls ::
  "embedded_env \<Rightarrow> embedded_field \<Rightarrow> (exn + pyclass) \<times> embedded_field" where
  "embedded_document_cls env f =
     (case ef_embedded_document_cls f of
        Some c \<Rightarrow> (Inr c, f)
      | None \<Rightarrow>
          (case retrieve_embedded_document env (StrV (ef_embedded_document f)) of
             Inl e \<Rightarrow> (Inl e, f)
           | Inr c \<Rightarrow> (Inr c, f\<lparr>ef_embedded_document_cls := Some c\<rparr>)))"

text \<open>
  \<open>cls(**kwargs)\<close>: keyword names are strings (otherwise the call is a \<open>TypeError\<close>); the
  result is an instance of the class called.
\<close>

definition is_str_key :: "key \<Rightarrow> bool" where
  "is_str_key k = (case k of KStr _ \<Rightarrow> True | KInt _ \<Rightarrow> False)"

definition instantiate :: "embedded_env \<Rightarrow> pyclass \<Rightarrow> (key \<times> pyval) list \<Rightarrow> exn + pyval" where
  "instantiate env c kwargs =
     (if \<not> list_all (\<lambda>p. is_str_key (fst p)) kwargs then Inl TypeError
      else (case load_kwargs env c kwargs of
              Inl e \<Rightarrow> Inl e
            | Inr data \<Rightarrow> Inr (EmbV c data)))"

text \<open>
  \<open>EmbeddedField._deserialize\<close> of \<open>fields.py\<close>. The result is the outcome, the caller's
  \<open>value\<close> object as it is after the call (\<open>value.pop('cls')\<close> changes the caller's
  dictionary), and the field.
\<close>

definition EmbeddedField_deserialize ::
  "embedded_env \<Rightarrow> embedded_field \<Rightarrow> pyval \<Rightarrow> (exn + pyval) \<times> pyval \<times> embedded_field" where
  "EmbeddedField_deserialize env f v =
     (case embedded_document_cls env f of
        (Inl e, f') \<Rightarrow> (Inl e, v, f')
      | (Inr ecls, f') \<Rightarrow>
          (case v of
             EmbV c data \<Rightarrow>
               if issubclass c ecls then (Inr v, v, f')
               else (Inl (ValidationError (MsgDict
                       [(KStr ''_schema'', MsgList [Msg ''Invalid input type.'' []])])), v, f')
           | DictV d \<Rightarrow>
               (case (if opts_offspring env ecls \<noteq> [] then map_of d (KStr ''cls'') else None) of
                  Some to_use_cls_name \<Rightarrow>
                    (let d' = dict_pop d (KStr ''cls'')
                     in if \<not> list_ex (\<lambda>o'. StrV (cls_name o') = to_use_cls_name)
                               (opts_offspring env ecls)
                        then (Inl (ValidationError (MsgList
                                [Msg ''Unknown document `{document}`.'' [to_use_cls_name]])),
                              DictV d', f')
                        else (case opts_retrieve_embedded_document env ecls to_use_cls_name of
                                Inl (NotRegisteredDocumentError text) \<Rightarrow>
                                  (Inl (ValidationError (MsgList [Msg text []])), DictV d', f')
                              | Inl e \<Rightarrow> (Inl e, DictV d', f')
                              | Inr to_use_cls \<Rightarrow> (instantiate env to_use_cls d', DictV d', f')))
                | None \<Rightarrow> (instantiate env ecls d, v, f'))
           | _ \<Rightarrow>
               (Inl (ValidationError (MsgDict
                  [(KStr ''_schema'', MsgList [Msg ''Invalid input type.'' []])])), v, f')))"

section \<open>Scalar fields: the storage codec\<close>

text \<open>
  The scalar fields of \<open>fields.py\<close>. \<open>AwareDateTimeField\<close> carries its
  \<open>default_timezone\<close> (\<open>None\<close> or a fixed offset in minutes).
\<close>

datatype scalar_field =
    StringField | UUIDField | NumberField | IntegerField | DecimalField | BooleanField
  | FloatField | DateTimeField | NaiveDateTimeField | AwareDateTimeField "int option"
  | DateField | UrlField | EmailField | ConstantField | ObjectIdField

subsection \<open>The 128-bit decimal of the driver\<close>



text \<open>The number of decimal digits of a coefficient (\<open>len(str(n))\<close>).\<close>

fun ndigits :: "nat \<Rightarrow> nat" where
  "ndigits n = (if n < 10 then 1 else Suc (ndigits (n div 10)))"

declare ndigits.simps [simp del]










subsection \<open>Conversion to a time zone\<close>







subsection \<open>The codecs\<close>









section \<open>Schema: the cache of generated marshmallow schemas\<close>

text \<open>
  \<open>==\<close> on the values that override arguments hold: dictionaries are equal when they
  have the same keys with equal values, whatever the order of insertion; lists are equal
  elementwise; \<open>True == 1\<close> and \<open>False == 0\<close>; other values are compared as they are.
\<close>

fun py_eq :: "pyval \<Rightarrow> pyval \<Rightarrow> bool"
  and dict_sub :: "(key \<times> pyval) list \<Rightarrow> (key \<times> pyval) list \<Rightarrow> bool"
  and list_eq :: "pyval list \<Rightarrow> pyval list \<Rightarrow> bool" where
  "py_eq (DictV d1) b =
     (case b of DictV d2 \<Rightarrow> dict_sub d1 d2 \<and> dict_keys d2 \<subseteq> dict_keys d1 | _ \<Rightarrow> False)"
| "py_eq (ListV xs) b = (case b of ListV ys \<Rightarrow> list_eq xs ys | _ \<Rightarrow> False)"
| "py_eq (BoolV p) b =
     (case b of BoolV q \<Rightarrow> p = q | IntV i \<Rightarrow> i = (if p then 1 else 0) | _ \<Rightarrow> False)"
| "py_eq (IntV i) b =
     (case b of IntV j \<Rightarrow> i = j | BoolV q \<Rightarrow> i = (if q then 1 else 0) | _ \<Rightarrow> False)"
| "py_eq a b = (a = b)"
| "dict_sub [] d2 = True"
| "dict_sub ((k, v) # rest) d2 =
     ((case map_of d2 k of None \<Rightarrow> False | Some v' \<Rightarrow> py_eq v v') \<and> dict_sub rest d2)"
| "list_eq [] ys = (ys = [])"
| "list_eq (x # xs) ys = (case ys of [] \<Rightarrow> False | y # ys' \<Rightarrow> py_eq x y \<and> list_eq xs ys')"

text \<open>
  A generated marshmallow schema class: \<open>type(name, (base_schema_cls,), nmspc)\<close>. Each
  call of \<open>type\<close> makes a new class; \<open>ms_id\<close> is its identity. The namespace holds the
  generated fields, \<open>get_attribute\<close> and \<open>Meta\<close>. A generated field is kept as the
  keyword arguments it was built from, with the inner field or the nested schema.
\<close>

datatype ma_field =
    MaField "(key \<times> pyval) list"
  | MaList ma_field "(key \<times> pyval) list"
  | MaDict "ma_field option" "(key \<times> pyval) list"
  | MaNested ma_schema "(key \<times> pyval) list"
and ns_entry =
    NsField ma_field
  | NsGetAttribute
  | NsMeta "(key \<times> pyval) list"
and ma_schema =
    MaSchema (ms_id: nat) (ms_name: string) (ms_base: pyclass) (ms_nmspc: "(string \<times> ns_entry) list")

text \<open>
  The process-wide state. \<open>buckets\<close> is the class attribute
  \<open>_marshmallow_schemas_cache\<close> of \<open>BaseSchema\<close>: a dictionary from the hashable key
  \<open>(schema class, base_schema_cls, check_unknown_fields, mongo_world)\<close> to a list of
  \<open>((params, meta), schema)\<close>. \<open>direct\<close> is the one of \<open>Schema\<close> (\<open>schema.py\<close>): a
  dictionary from \<open>(schema class, MA_BASE_SCHEMA_CLS, mongo_world)\<close> to a schema. \<open>made\<close>
  is the number of classes made so far.
\<close>

type_synonym cache_key = "pyclass \<times> pyclass \<times> bool \<times> bool"

type_synonym modifiers = "(key \<times> pyval) list \<times> (key \<times> pyval) list"

record schemas_cache =
  buckets :: "(cache_key \<times> (modifiers \<times> ma_schema) list) list"
  direct :: "((pyclass \<times> pyclass \<times> bool) \<times> ma_schema) list"
  made :: nat

text \<open>
  A field as the schema sees it: its \<open>as_marshmallow_field\<close>, called with \<open>params\<close>
  (\<open>NoneV\<close> when there is none), the keyword arguments \<open>base_schema_cls\<close> and
  \<open>check_unknown_fields\<close> if the caller passes them, \<open>mongo_world\<close>, and the state. It
  gives the outcome, the dictionary \<open>params\<close> as the call leaves it (container and
  embedded fields pop entries from it), and the state as the call leaves it (an embedded
  field generates the nested schema).
\<close>

type_synonym projector =
  "pyval \<Rightarrow> pyclass option \<Rightarrow> bool option \<Rightarrow> bool \<Rightarrow> schemas_cache
     \<Rightarrow> (exn + ma_field) \<times> pyval \<times> schemas_cache"

text \<open>
  A schema: its class, its fields in order, and the attribute \<open>MA_BASE_SCHEMA_CLS\<close> that
  \<open>schema.py\<close> reads.
\<close>

record schema =
  schema_cls :: pyclass
  schema_fields :: "(string \<times> projector) list"
  MA_BASE_SCHEMA_CLS :: pyclass

text \<open>\<open>d.get(k)\<close>, and the dictionary \<open>d\<close> after the object \<open>d[k]\<close> has changed to \<open>v\<close>.\<close>

definition dict_get :: "(key \<times> pyval) list \<Rightarrow> key \<Rightarrow> pyval" where
  "dict_get d k = (case map_of d k of None \<Rightarrow> NoneV | Some v \<Rightarrow> v)"

definition dict_changed :: "(key \<times> pyval) list \<Rightarrow> key \<Rightarrow> pyval \<Rightarrow> (key \<times> pyval) list" where
  "dict_changed d k v = (if k \<in> dict_keys d then dict_set d k v else d)"

text \<open>\<open>d.setdefault(k, v)\<close>.\<close>

definition dict_setdefault :: "(key \<times> pyval) list \<Rightarrow> key \<Rightarrow> pyval \<Rightarrow> (key \<times> pyval) list" where
  "dict_setdefault d k v = (if k \<in> dict_keys d then d else d @ [(k, v)])"

text \<open>
  \<open>BaseField.as_marshmallow_field\<close> of \<open>abstract.py\<close> (also the one of the reference
  fields): \<open>field_kwargs.update(params)\<close> leaves \<open>params\<close> as it is. The field's own
  attributes, which \<open>_extract_marshmallow_field_params\<close> copies, are not modelled.
\<close>

definition BaseField_as_marshmallow_field :: projector where
  "BaseField_as_marshmallow_field params base_schema_cls check_unknown_fields mongo_world st =
     (case params of
        DictV p \<Rightarrow> (Inr (MaField p), params, st)
      | _ \<Rightarrow> (Inr (MaField []), params, st))"

text \<open>
  \<open>ListField.as_marshmallow_field\<close> and \<open>DictField.as_marshmallow_field\<close> of \<open>fields.py\<close>:
  \<open>params.pop('params', None)\<close> takes the inner field's parameters out of the caller's
  dictionary. \<open>if params\<close> holds for a dictionary that is not empty.
\<close>

definition ListField_as_marshmallow_field :: "projector \<Rightarrow> projector" where
  "ListField_as_marshmallow_field inner params base_schema_cls check_unknown_fields mongo_world st =
     (case params of
        DictV (x # xs) \<Rightarrow>
          (let p = x # xs;
               inner_params = dict_get p (KStr ''params'');
               p' = dict_pop p (KStr ''params'')
           in case inner inner_params base_schema_cls check_unknown_fields mongo_world st of
                (Inl e, _, st') \<Rightarrow> (Inl e, DictV p', st')
              | (Inr m, _, st') \<Rightarrow> (Inr (MaList m p'), DictV p', st'))
      | _ \<Rightarrow>
          (case inner NoneV base_schema_cls check_unknown_fields mongo_world st of
             (Inl e, _, st') \<Rightarrow> (Inl e, params, st')
           | (Inr m, _, st') \<Rightarrow> (Inr (MaList m []), params, st')))"

definition DictField_as_marshmallow_field :: "projector option \<Rightarrow> projector" where
  "DictField_as_marshmallow_field value_field params base_schema_cls check_unknown_fields
       mongo_world st =
     (let (inner_params, p', after) =
            (case params of
               DictV (x # xs) \<Rightarrow>
                 (dict_get (x # xs) (KStr ''params''), dict_pop (x # xs) (KStr ''params''),
                  DictV (dict_pop (x # xs) (KStr ''params'')))
             | _ \<Rightarrow> (NoneV, [], params))
      in case value_field of
           None \<Rightarrow> (Inr (MaDict None p'), after, st)
         | Some inner \<Rightarrow>
             (case inner inner_params base_schema_cls check_unknown_fields mongo_world st of
                (Inl e, _, st') \<Rightarrow> (Inl e, after, st')
              | (Inr m, _, st') \<Rightarrow> (Inr (MaDict (Some m) p'), after, st')))"

text \<open>The lookup in a bucket: the first entry whose modifiers are equal to the call's.\<close>

fun find_schema :: "(modifiers \<times> ma_schema) list \<Rightarrow> modifiers \<Rightarrow> ma_schema option" where
  "find_schema [] cm = None"
| "find_schema (((p, m), s) # rest) cm =
     (if py_eq (DictV p) (DictV (fst cm)) \<and> py_eq (DictV m) (DictV (snd cm)) then Some s
      else find_schema rest cm)"

text \<open>
  The comprehension over \<open>self.fields.items()\<close>: each field's \<open>as_marshmallow_field\<close> in
  turn, on \<open>params.get(name)\<close>, stored under its name in the namespace built so far. It
  gives the namespace, \<open>params\<close> as the calls leave it, and the state.
\<close>

fun project_fields ::
  "(string \<times> projector) list \<Rightarrow> (key \<times> pyval) list \<Rightarrow> pyclass option \<Rightarrow> bool option \<Rightarrow> bool
     \<Rightarrow> (string \<times> ns_entry) list \<Rightarrow> schemas_cache
     \<Rightarrow> (exn + (string \<times> ns_entry) list) \<times> (key \<times> pyval) list \<times> schemas_cache" where
  "project_fields [] params b c w nmspc st = (Inr nmspc, params, st)"
| "project_fields ((name, fld) # rest) params b c w nmspc st =
     (case fld (dict_get params (KStr name)) b c w st of
        (Inl e, entry, st') \<Rightarrow> (Inl e, dict_changed params (KStr name) entry, st')
      | (Inr m, entry, st') \<Rightarrow>
          project_fields rest (dict_changed params (KStr name) entry) b c w
            (dict_set nmspc name (NsField m)) st')"

text \<open>
  \<open>BaseSchema.as_marshmallow_schema\<close> of \<open>abstract.py\<close>. The arguments \<open>params\<close> and
  \<open>meta\<close> are \<open>None\<close> or a dictionary made for the call. \<open>cache_modifiers\<close> holds the
  very dictionaries that the fields and \<open>meta.setdefault\<close> then change, so what the cache
  keeps is \<open>(params, meta)\<close> as they are at the end of the call. \<open>EXCLUDE\<close> of marshmallow
  is the string \<open>'exclude'\<close>.
\<close>

definition bucket_of :: "schemas_cache \<Rightarrow> cache_key \<Rightarrow> (modifiers \<times> ma_schema) list" where
  "bucket_of st k = (case map_of (buckets st) k of None \<Rightarrow> [] | Some b \<Rightarrow> b)"

definition as_marshmallow_schema ::
  "schema \<Rightarrow> (key \<times> pyval) list option \<Rightarrow> pyclass \<Rightarrow> bool \<Rightarrow> bool \<Rightarrow> (key \<times> pyval) list option
     \<Rightarrow> schemas_cache \<Rightarrow> (exn + ma_schema) \<times> schemas_cache" where
  "as_marshmallow_schema self params_arg base_schema_cls check_unknown_fields mongo_world meta_arg st =
     (let params = (case params_arg of None \<Rightarrow> [] | Some p \<Rightarrow> p);
          meta = (case meta_arg of None \<Rightarrow> [] | Some m \<Rightarrow> m);
          cache_key = (schema_cls self, base_schema_cls, check_unknown_fields, mongo_world)
      in case find_schema (bucket_of st cache_key) (params, meta) of
           Some ma_schema \<Rightarrow> (Inr ma_schema, st)
         | None \<Rightarrow>
             (case project_fields (schema_fields self) params (Some base_schema_cls)
                     (Some check_unknown_fields) mongo_world [] st of
                (Inl e, params', st') \<Rightarrow> (Inl e, st')
              | (Inr nmspc, params', st') \<Rightarrow>
                  (let meta' = (if \<not> check_unknown_fields
                                then dict_setdefault meta (KStr ''unknown'') (StrV ''exclude'')
                                else meta);
                       nmspc1 = (if \<not> mongo_world then dict_set nmspc ''get_attribute'' NsGetAttribute
                                 else nmspc);
                       nmspc2 = (if meta' \<noteq> [] then dict_set nmspc1 ''Meta'' (NsMeta meta')
                                 else nmspc1);
                       m_schema = MaSchema (made st') (''Marshmallow'' @ cls_name (schema_cls self))
                                    base_schema_cls nmspc2
                   in (Inr m_schema,
                       st'\<lparr>buckets := dict_set (buckets st') cache_key
                                         (bucket_of st' cache_key @ [((params', meta'), m_schema)]),
                           made := made st' + 1\<rparr>))))"

text \<open>
  \<open>EmbeddedField.as_marshmallow_field\<close> of \<open>fields.py\<close>: it pops \<open>'params'\<close> and
  \<open>'meta'\<close> from the caller's dictionary and calls \<open>as_marshmallow_schema\<close> of the schema
  of \<open>self._embedded_document_cls\<close> (\<open>None\<close> on a field not yet resolved, an
  \<open>AttributeError\<close>) with \<open>params\<close>, \<open>mongo_world\<close>, \<open>meta\<close> and the keyword arguments
  it was given. The method of the nested schema is the parameter \<open>nested\<close>; for a nested
  \<open>BaseSchema\<close> it is \<open>nested_as_marshmallow_schema\<close>, where \<open>marshmallow.Schema\<close> and
  \<open>True\<close> are the defaults of the arguments not passed.
\<close>

type_synonym schema_method =
  "pyval \<Rightarrow> pyclass option \<Rightarrow> bool option \<Rightarrow> bool \<Rightarrow> pyval \<Rightarrow> schemas_cache
     \<Rightarrow> (exn + ma_schema) \<times> schemas_cache"

definition dict_or_none :: "pyval \<Rightarrow> (key \<times> pyval) list option" where
  "dict_or_none v = (case v of DictV d \<Rightarrow> Some d | _ \<Rightarrow> None)"

definition nested_as_marshmallow_schema :: "schema \<Rightarrow> schema_method" where
  "nested_as_marshmallow_schema self params base_schema_cls check_unknown_fields mongo_world meta st =
     as_marshmallow_schema self (dict_or_none params)
       (case base_schema_cls of None \<Rightarrow> PyClass ''Schema'' [] [] | Some b \<Rightarrow> b)
       (case check_unknown_fields of None \<Rightarrow> True | Some c \<Rightarrow> c)
       mongo_world (dict_or_none meta) st"

definition EmbeddedField_as_marshmallow_field :: "schema_method option \<Rightarrow> projector" where
  "EmbeddedField_as_marshmallow_field embedded params base_schema_cls check_unknown_fields
       mongo_world st =
     (let (nested_params, nested_meta, p', after) =
            (case params of
               DictV (x # xs) \<Rightarrow>
                 (dict_get (x # xs) (KStr ''params''),
                  dict_get (dict_pop (x # xs) (KStr ''params'')) (KStr ''meta''),
                  dict_pop (dict_pop (x # xs) (KStr ''params'')) (KStr ''meta''),
                  DictV (dict_pop (dict_pop (x # xs) (KStr ''params'')) (KStr ''meta'')))
             | _ \<Rightarrow> (NoneV, NoneV, [], params))
      in case embedded of
           None \<Rightarrow> (Inl AttributeError, after, st)
         | Some nested \<Rightarrow>
             (case nested nested_params base_schema_cls check_unknown_fields mongo_world
                     nested_meta st of
                (Inl e, st') \<Rightarrow> (Inl e, after, st')
              | (Inr nested_ma_schema, st') \<Rightarrow> (Inr (MaNested nested_ma_schema p'), after, st')))"

text \<open>
  \<open>Schema.as_marshmallow_schema\<close> of \<open>schema.py\<close>: no override arguments, one schema per
  key. The fields are called with \<open>mongo_world\<close> only.
\<close>

definition Schema_as_marshmallow_schema ::
  "schema \<Rightarrow> bool \<Rightarrow> schemas_cache \<Rightarrow> (exn + ma_schema) \<times> schemas_cache" where
  "Schema_as_marshmallow_schema self mongo_world st =
     (let cache_key = (schema_cls self, MA_BASE_SCHEMA_CLS self, mongo_world)
      in case map_of (direct st) cache_key of
           Some ma_schema \<Rightarrow> (Inr ma_schema, st)
         | None \<Rightarrow>
             (case project_fields (schema_fields self) [] None None mongo_world [] st of
                (Inl e, params', st') \<Rightarrow> (Inl e, st')
              | (Inr nmspc, params', st') \<Rightarrow>
                  (let nmspc1 = (if \<not> mongo_world then dict_set nmspc ''get_attribute'' NsGetAttribute
                                 else nmspc);
                       m_schema = MaSchema (made st') (''Marshmallow'' @ cls_name (schema_cls self))
                                    (MA_BASE_SCHEMA_CLS self) nmspc1
                   in (Inr m_schema,
                       st'\<lparr>direct := dict_set (direct st') cache_key m_schema,
                           made := made st' + 1\<rparr>))))"

text \<open>A field whose \<open>as_marshmallow_field\<close> generates no nested schema leaves the state as it is.\<close>

definition keeps_state :: "projector \<Rightarrow> bool" where
  "keeps_state f = (\<forall>p b c w st. snd (snd (f p b c w st)) = st)"

section \<open>Properties of the millisecond rounding\<close>

lemma py_round_thousands_dvd: "1000 dvd py_round_thousands n"
  by (simp add: py_round_thousands_def Let_def)

lemma py_round_thousands_near:
  "py_round_thousands n \<le> n + 500 \<and> n \<le> py_round_thousands n + 500"
proof -
  define q where "q = n div 1000"
  define r where "r = n mod 1000"
  have n: "n = 1000 * q + r" and r: "r < 1000" by (simp_all add: q_def r_def)
  have "py_round_thousands n =
      (if r < 500 then 1000 * q else if 500 < r then 1000 * (q + 1)
       else if even q then 1000 * q else 1000 * (q + 1))"
    by (simp add: py_round_thousands_def Let_def q_def r_def)
  with n r show ?thesis by (auto split: if_splits)
qed

lemma py_round_thousands_fix: "1000 dvd n \<Longrightarrow> py_round_thousands n = n"
  by (auto simp add: py_round_thousands_def Let_def mod_eq_0_iff_dvd)

lemma py_round_thousands_le: "n < 1000000 \<Longrightarrow> py_round_thousands n \<le> 1000000"
proof -
  assume a: "n < 1000000"
  have "n div 1000 < 1000" using a by (simp add: less_mult_imp_div_less)
  hence q: "n div 1000 + 1 \<le> 1000" by simp
  have "1000 * (n div 1000) \<le> 1000000" using q by simp
  moreover have "1000 * (n div 1000 + 1) \<le> 1000000" using q by simp
  ultimately show ?thesis unfolding py_round_thousands_def Let_def by (simp split: if_splits)
qed

lemma days_before_year_Suc:
  assumes "1 \<le> y"
  shows "days_before_year (Suc y) = days_before_year y + (if is_leap y then 366 else 365)"
proof -
  obtain z where y: "y = Suc z" using assms by (cases y) auto
  define a where "a = z div 4"
  define b where "b = z div 100"
  define c where "c = z div 400"
  have le: "b \<le> a" unfolding a_def b_def by (rule div_le_mono2) simp_all
  have d4: "(4::nat) dvd 100" and d100: "(100::nat) dvd 400" by simp_all
  have m1: "Suc z mod 100 = 0 \<Longrightarrow> Suc z mod 4 = 0"
    using d4 by (meson dvd_trans mod_eq_0_iff_dvd)
  have m2: "Suc z mod 400 = 0 \<Longrightarrow> Suc z mod 100 = 0"
    using d100 by (meson dvd_trans mod_eq_0_iff_dvd)
  have S4: "Suc z div 4 = (if Suc z mod 4 = 0 then Suc a else a)"
    by (simp add: div_Suc a_def)
  have S100: "Suc z div 100 = (if Suc z mod 100 = 0 then Suc b else b)"
    by (simp add: div_Suc b_def)
  have S400: "Suc z div 400 = (if Suc z mod 400 = 0 then Suc c else c)"
    by (simp add: div_Suc c_def)
  have L: "days_before_year (Suc y) = Suc z * 365 + Suc z div 4 - Suc z div 100 + Suc z div 400"
    by (simp add: y days_before_year_def)
  have R: "days_before_year y = z * 365 + a - b + c"
    by (simp add: y days_before_year_def a_def b_def c_def)
  have lp: "is_leap y = (Suc z mod 4 = 0 \<and> (Suc z mod 100 \<noteq> 0 \<or> Suc z mod 400 = 0))"
    by (simp add: is_leap_def y)
  show ?thesis
    unfolding L R S4 S100 S400 lp using le m1 m2 by (cases "Suc z mod 4 = 0"; cases "Suc z mod 100 = 0"; cases "Suc z mod 400 = 0"; simp)
qed


lemma days_before_month_Suc:
  "1 \<le> m \<Longrightarrow> days_before_month y (Suc m) = days_before_month y m + days_in_month y m"
  by (simp add: days_before_month_def)

lemma days_before_month_13:
  "days_before_month y 13 = (if is_leap y then 366 else 365)"
  by (simp add: days_before_month_def days_in_month_def upt_rec)

lemma toordinal_next_day:
  "toordinal (d\<lparr>day := Suc (day d), hour := h, minute := mi, second := s\<rparr>) = toordinal d + 1"
  by (simp add: toordinal_def)

lemma toordinal_next_month:
  assumes "1 \<le> month d" "day d = days_in_month (year d) (month d)"
  shows "toordinal (d\<lparr>month := Suc (month d), day := Suc 0, hour := h, minute := mi, second := s\<rparr>)
           = toordinal d + 1"
  using assms days_before_month_Suc [of "month d" "year d"] by (simp add: toordinal_def)

lemma toordinal_next_year:
  assumes "1 \<le> year d" "month d = 12" "day d = days_in_month (year d) (month d)"
  shows "toordinal (d\<lparr>year := Suc (year d), month := Suc 0, day := Suc 0,
                       hour := h, minute := mi, second := s\<rparr>) = toordinal d + 1"
proof -
  have a: "days_before_month (year d) 13 = days_before_month (year d) 12 + days_in_month (year d) 12"
    using days_before_month_Suc [of 12 "year d"] by simp
  have b: "days_before_month (Suc (year d)) 1 = 0" by (simp add: days_before_month_def)
  show ?thesis
    using assms a b days_before_month_13 [of "year d"] days_before_year_Suc [of "year d"]
    by (simp add: toordinal_def split: if_splits)
qed

lemma wall_seconds_next:
  "toordinal r = toordinal d + 1 \<Longrightarrow> hour r = 0 \<Longrightarrow> minute r = 0 \<Longrightarrow> second r = 0 \<Longrightarrow>
   hour d = 23 \<Longrightarrow> minute d = 59 \<Longrightarrow> second d = 59 \<Longrightarrow> wall_seconds r = wall_seconds d + 1"
  by (simp add: wall_seconds_def)

lemma add_one_second_returns:
  assumes "valid_datetime d" "\<not> in_last_second d"
  shows "\<exists>r. add_one_second d = Inr r"
proof -
  have "days_in_month (year d) 12 = 31" by (simp add: days_in_month_def)
  with assms show ?thesis
    unfolding add_one_second_def valid_datetime_def in_last_second_def
    by (auto simp: not_less)
qed

lemma add_one_second_correct:
  assumes v: "valid_datetime d" and r: "add_one_second d = Inr r"
  shows "wall_seconds r = wall_seconds d + 1 \<and> microsecond r = microsecond d \<and>
         tzinfo r = tzinfo d \<and> valid_datetime r"
proof -
  consider (s) "second d < 59"
    | (m) "second d = 59" "minute d < 59"
    | (h) "second d = 59" "minute d = 59" "hour d < 23"
    | (dd) "second d = 59" "minute d = 59" "hour d = 23" "day d < days_in_month (year d) (month d)"
    | (mo) "second d = 59" "minute d = 59" "hour d = 23"
           "day d = days_in_month (year d) (month d)" "month d < 12"
    | (y) "second d = 59" "minute d = 59" "hour d = 23"
           "day d = days_in_month (year d) (month d)" "month d = 12"
    using v unfolding valid_datetime_def by linarith
  then show ?thesis
  proof cases
    case s
    with v r show ?thesis
      by (auto simp: add_one_second_def valid_datetime_def wall_seconds_def toordinal_def)
  next
    case m
    with v r show ?thesis
      by (auto simp: add_one_second_def valid_datetime_def wall_seconds_def toordinal_def)
  next
    case h
    with v r show ?thesis
      by (auto simp: add_one_second_def valid_datetime_def wall_seconds_def toordinal_def)
  next
    case dd
    with r have req: "r = d\<lparr>day := day d + 1, hour := 0, minute := 0, second := 0\<rparr>"
      by (simp add: add_one_second_def)
    have "wall_seconds r = wall_seconds d + 1"
      using dd by (intro wall_seconds_next) (simp_all add: req toordinal_next_day)
    moreover have "valid_datetime r" using v dd by (simp add: req valid_datetime_def)
    ultimately show ?thesis by (simp add: req)
  next
    case mo
    with r have req: "r = d\<lparr>month := month d + 1, day := 1, hour := 0, minute := 0, second := 0\<rparr>"
      by (simp add: add_one_second_def)
    have m1: "1 \<le> month d" using v by (simp add: valid_datetime_def)
    have "wall_seconds r = wall_seconds d + 1"
      using mo m1 by (intro wall_seconds_next) (simp_all add: req toordinal_next_month)
    moreover have "valid_datetime r" using v mo
      by (simp add: req valid_datetime_def days_in_month_def)
    ultimately show ?thesis by (simp add: req)
  next
    case y
    with r have y9: "year d < 9999" by (simp add: add_one_second_def split: if_splits)
    with r y have req: "r = d\<lparr>year := year d + 1, month := 1, day := 1,
                     hour := 0, minute := 0, second := 0\<rparr>"
      by (simp add: add_one_second_def)
    have y1: "1 \<le> year d" using v by (simp add: valid_datetime_def)
    have "wall_seconds r = wall_seconds d + 1"
      using y y1 by (intro wall_seconds_next) (simp_all add: req toordinal_next_year)
    moreover have "valid_datetime r" using v y y9
      by (simp add: req valid_datetime_def days_in_month_def)
    ultimately show ?thesis by (simp add: req)
  qed
qed


lemma round_to_millisecond_cases:
  assumes "valid_datetime d"
  shows "(if py_round_thousands (microsecond d) < 1000000
          then round_to_millisecond d = Inr (d\<lparr>microsecond := py_round_thousands (microsecond d)\<rparr>)
          else py_round_thousands (microsecond d) = 1000000 \<and>
               round_to_millisecond d = add_one_second (d\<lparr>microsecond := 0\<rparr>))"
proof -
  have "microsecond d < 1000000" using assms by (simp add: valid_datetime_def)
  from py_round_thousands_le [OF this] show ?thesis
    by (auto simp: round_to_millisecond_def Let_def replace_microsecond_def)
qed

lemma valid_datetime_zero_microsecond:
  "valid_datetime d \<Longrightarrow> valid_datetime (d\<lparr>microsecond := 0\<rparr>)"
  by (simp add: valid_datetime_def)

lemma carry_result:
  assumes v: "valid_datetime d" and nl: "\<not> in_last_second d"
  shows "\<exists>r. add_one_second (d\<lparr>microsecond := 0\<rparr>) = Inr r \<and> microsecond r = 0 \<and>
             wall_seconds r = wall_seconds d + 1 \<and> tzinfo r = tzinfo d \<and> valid_datetime r"
proof -
  let ?d0 = "d\<lparr>microsecond := 0\<rparr>"
  have v0: "valid_datetime ?d0" using v by (rule valid_datetime_zero_microsecond)
  have nl0: "\<not> in_last_second ?d0" using nl by (simp add: in_last_second_def)
  obtain r where r: "add_one_second ?d0 = Inr r"
    using add_one_second_returns [OF v0 nl0] by blast
  have w: "wall_seconds ?d0 = wall_seconds d" by (simp add: wall_seconds_def toordinal_def)
  from add_one_second_correct [OF v0 r] w r show ?thesis by simp
qed

text \<open>
  Claim C5, as amended. For every valid datetime, \<open>_round_to_millisecond\<close> rounds the
  microsecond component to the nearest multiple of 1000 (a tie to the even multiple). Below
  1000000 the result is the input with that microsecond component. When the rounding
  carries to 1000000, the result has microsecond 0 and lies one second later, with the
  same \<open>tzinfo\<close>; in the last second of year 9999 there is no such value and the function
  raises \<open>OverflowError\<close>.
\<close>

theorem round_to_millisecond_nearest_thousand:
  assumes "valid_datetime d"
  shows "1000 dvd py_round_thousands (microsecond d) \<and>
         py_round_thousands (microsecond d) \<le> microsecond d + 500 \<and>
         microsecond d \<le> py_round_thousands (microsecond d) + 500 \<and>
         (if py_round_thousands (microsecond d) < 1000000
          then round_to_millisecond d =
                 Inr (d\<lparr>microsecond := py_round_thousands (microsecond d)\<rparr>)
          else py_round_thousands (microsecond d) = 1000000 \<and>
               (if in_last_second d then round_to_millisecond d = Inl OverflowError
                else (\<exists>r. round_to_millisecond d = Inr r \<and> microsecond r = 0 \<and>
                       wall_seconds r = wall_seconds d + 1 \<and> tzinfo r = tzinfo d \<and>
                       valid_datetime r)))"
proof -
  note c = round_to_millisecond_cases [OF assms]
  have last: "in_last_second d \<Longrightarrow> add_one_second (d\<lparr>microsecond := 0\<rparr>) = Inl OverflowError"
    by (simp add: in_last_second_def add_one_second_def days_in_month_def)
  show ?thesis
  proof (cases "py_round_thousands (microsecond d) < 1000000")
    case True
    with c show ?thesis
      using py_round_thousands_near [of "microsecond d"] py_round_thousands_dvd [of "microsecond d"]
      by simp
  next
    case False
    with c have m: "py_round_thousands (microsecond d) = 1000000"
      and e: "round_to_millisecond d = add_one_second (d\<lparr>microsecond := 0\<rparr>)" by simp_all
    have n: "1000000 \<le> microsecond d + 500 \<and> microsecond d \<le> 1000000 + 500"
      using py_round_thousands_near [of "microsecond d"] unfolding m .
    show ?thesis
    proof (cases "in_last_second d")
      case True
      with m e n last show ?thesis by simp
    next
      case nl: False
      from carry_result [OF assms nl] m e n nl show ?thesis by simp
    qed
  qed
qed

theorem round_to_millisecond_nearest_thousand_witness:
  "valid_datetime \<lparr>year = 2024, month = 2, day = 29, hour = 23, minute = 59, second = 59,
                    microsecond = 999500, tzinfo = None\<rparr> \<and>
   (\<exists>r. round_to_millisecond \<lparr>year = 2024, month = 2, day = 29, hour = 23, minute = 59,
            second = 59, microsecond = 999500, tzinfo = None\<rparr> = Inr r \<and> microsecond r = 0 \<and>
         wall_seconds r = wall_seconds \<lparr>year = 2024, month = 2, day = 29, hour = 23, minute = 59,
            second = 59, microsecond = 999500, tzinfo = None\<rparr> + 1)"
proof -
  let ?d = "\<lparr>year = 2024, month = 2, day = 29, hour = 23, minute = 59, second = 59,
             microsecond = 999500, tzinfo = None\<rparr>"
  have v: "valid_datetime ?d" by (simp add: valid_datetime_def days_in_month_def is_leap_def)
  have m: "py_round_thousands (microsecond ?d) = 1000000"
    by (simp add: py_round_thousands_def Let_def)
  have nl: "\<not> in_last_second ?d" by (simp add: in_last_second_def)
  from round_to_millisecond_nearest_thousand [OF v] m nl v show ?thesis by auto
qed

text \<open>
  The claim as written ("for every datetime value ... the result has a zero microsecond
  component and one second added") fails in the last second of year 9999.
\<close>

theorem round_to_millisecond_carry_counterexample:
  "valid_datetime \<lparr>year = 9999, month = 12, day = 31, hour = 23, minute = 59, second = 59,
                    microsecond = 999500, tzinfo = None\<rparr> \<and>
   py_round_thousands 999500 = 1000000 \<and>
   round_to_millisecond \<lparr>year = 9999, month = 12, day = 31, hour = 23, minute = 59, second = 59,
                    microsecond = 999500, tzinfo = None\<rparr> = Inl OverflowError"
  by (simp add: valid_datetime_def days_in_month_def round_to_millisecond_def
      py_round_thousands_def Let_def replace_microsecond_def add_one_second_def)

lemma round_to_millisecond_microsecond:
  "round_to_millisecond d = Inr r \<Longrightarrow> py_round_thousands (microsecond r) = microsecond r \<and> microsecond r < 1000000"
proof -
  assume a: "round_to_millisecond d = Inr r"
  show ?thesis
  proof (cases "py_round_thousands (microsecond d) = 1000000")
    case True
    with a have "add_one_second (d\<lparr>microsecond := 0\<rparr>) = Inr r"
      by (simp add: round_to_millisecond_def replace_microsecond_def)
    hence "microsecond r = 0"
      by (auto simp: add_one_second_def split: if_splits)
    thus ?thesis by (simp add: py_round_thousands_def)
  next
    case False
    with a have "microsecond r = py_round_thousands (microsecond d) \<and> microsecond r < 1000000"
      by (auto simp: round_to_millisecond_def replace_microsecond_def Let_def split: if_splits)
    thus ?thesis
      using py_round_thousands_fix [OF py_round_thousands_dvd [of "microsecond d"]] by simp
  qed
qed

lemma round_to_millisecond_fixed:
  "py_round_thousands (microsecond r) = microsecond r \<Longrightarrow> microsecond r < 1000000 \<Longrightarrow>
   round_to_millisecond r = Inr r"
  by (simp add: round_to_millisecond_def replace_microsecond_def Let_def)

text \<open>
  Claim C4, as amended. Rounding twice is rounding once, for every datetime (an exception
  of the first rounding is the outcome of both sides). A valid datetime whose microsecond
  component is 999700 and which is not in the last second of year 9999 rounds to the next
  whole second, with microsecond 0.
\<close>

theorem round_to_millisecond_idempotent:
  "(case round_to_millisecond d of Inl e \<Rightarrow> Inl e | Inr r \<Rightarrow> round_to_millisecond r)
     = round_to_millisecond d \<and>
   (valid_datetime d \<and> microsecond d = 999700 \<and> \<not> in_last_second d \<longrightarrow>
     (\<exists>r. round_to_millisecond d = Inr r \<and> microsecond r = 0 \<and>
          wall_seconds r = wall_seconds d + 1 \<and> tzinfo r = tzinfo d \<and> valid_datetime r))"
proof
  show "(case round_to_millisecond d of Inl e \<Rightarrow> Inl e | Inr r \<Rightarrow> round_to_millisecond r)
     = round_to_millisecond d"
  proof (cases "round_to_millisecond d")
    case (Inl e)
    then show ?thesis by simp
  next
    case (Inr r)
    from round_to_millisecond_microsecond [OF Inr] have "round_to_millisecond r = Inr r"
      by (intro round_to_millisecond_fixed) simp_all
    with Inr show ?thesis by simp
  qed
next
  show "valid_datetime d \<and> microsecond d = 999700 \<and> \<not> in_last_second d \<longrightarrow>
     (\<exists>r. round_to_millisecond d = Inr r \<and> microsecond r = 0 \<and>
          wall_seconds r = wall_seconds d + 1 \<and> tzinfo r = tzinfo d \<and> valid_datetime r)"
  proof
    assume a: "valid_datetime d \<and> microsecond d = 999700 \<and> \<not> in_last_second d"
    hence m: "py_round_thousands (microsecond d) = 1000000"
      by (simp add: py_round_thousands_def Let_def)
    from a have v: "valid_datetime d" and nl: "\<not> in_last_second d" by simp_all
    from round_to_millisecond_cases [OF v] m
    have "round_to_millisecond d = add_one_second (d\<lparr>microsecond := 0\<rparr>)" by simp
    with carry_result [OF v nl] show "\<exists>r. round_to_millisecond d = Inr r \<and> microsecond r = 0 \<and>
          wall_seconds r = wall_seconds d + 1 \<and> tzinfo r = tzinfo d \<and> valid_datetime r" by simp
  qed
qed

theorem round_to_millisecond_idempotent_witness:
  "valid_datetime \<lparr>year = 2023, month = 12, day = 31, hour = 23, minute = 59, second = 59,
                    microsecond = 999700, tzinfo = None\<rparr> \<and>
   \<not> in_last_second \<lparr>year = 2023, month = 12, day = 31, hour = 23, minute = 59, second = 59,
                    microsecond = 999700, tzinfo = None\<rparr> \<and>
   (\<exists>r. round_to_millisecond \<lparr>year = 2023, month = 12, day = 31, hour = 23, minute = 59,
            second = 59, microsecond = 999700, tzinfo = None\<rparr> = Inr r \<and> microsecond r = 0 \<and>
         wall_seconds r = wall_seconds \<lparr>year = 2023, month = 12, day = 31, hour = 23,
            minute = 59, second = 59, microsecond = 999700, tzinfo = None\<rparr> + 1)"
proof -
  let ?d = "\<lparr>year = 2023, month = 12, day = 31, hour = 23, minute = 59, second = 59,
             microsecond = 999700, tzinfo = None\<rparr>"
  have v: "valid_datetime ?d" by (simp add: valid_datetime_def days_in_month_def)
  have nl: "\<not> in_last_second ?d" by (simp add: in_last_second_def)
  have m: "microsecond ?d = 999700" by simp
  from round_to_millisecond_idempotent [of ?d] v nl m show ?thesis by blast
qed

text \<open>
  The claim as written ("rounding any datetime whose microsecond component is 999700
  yields the next whole second") fails at the last representable second.
\<close>

theorem round_to_millisecond_999700_counterexample:
  "valid_datetime \<lparr>year = 9999, month = 12, day = 31, hour = 23, minute = 59, second = 59,
                    microsecond = 999700, tzinfo = None\<rparr> \<and>
   round_to_millisecond \<lparr>year = 9999, month = 12, day = 31, hour = 23, minute = 59, second = 59,
                    microsecond = 999700, tzinfo = None\<rparr> = Inl OverflowError"
  by (simp add: valid_datetime_def days_in_month_def round_to_millisecond_def
      py_round_thousands_def Let_def replace_microsecond_def add_one_second_def)

section \<open>Properties of the container fields\<close>
















section \<open>Properties of the reference fields\<close>

lemma document_cls_reference_cls: "rf_reference_cls (snd (document_cls retrieve f)) = rf_reference_cls f"
  by (simp add: document_cls_def split: option.splits sum.splits)

lemma document_cls_again:
  "document_cls retrieve f = (Inr T, f') \<Longrightarrow> document_cls retrieve f' = (Inr T, f')"
  by (auto simp: document_cls_def split: option.splits sum.splits)

text \<open>
  Claim C7. For a single-type reference field whose target resolves to the document class
  \<open>T\<close>: deserializing a raw identifier (an \<open>ObjectId\<close> or a string) that the parent
  class parses to the identifier \<open>x\<close> yields \<open>Reference(T, x)\<close>, of the field's
  \<open>reference_cls\<close>; \<open>serialize_to_mongo\<close> of that reference yields exactly \<open>x\<close>; and
  deserializing an instance of \<open>T\<close> that has not been created fails with the
  \<open>ValidationError\<close> "Cannot reference a document that has not been created yet."
\<close>

theorem ReferenceField_identifier_reference:
  assumes bound: "fst (document_cls retrieve f) = Inr T"
    and raw: "v = OidV s \<or> v = StrV s"
    and parsed: "parent v = Inr x"
  shows "fst (ReferenceField_deserialize retrieve parent f v) = Inr (RefV (rf_reference_cls f) T x) \<and>
         ReferenceField_serialize_to_mongo f (RefV (rf_reference_cls f) T x) = Inr x \<and>
         (\<forall>c pk. issubclass c T \<longrightarrow>
            fst (ReferenceField_deserialize retrieve parent f (DocV c False pk)) =
              Inl (ValidationError (MsgList
                [Msg ''Cannot reference a document that has not been created yet.'' []])))"
proof -
  obtain f' where d: "document_cls retrieve f = (Inr T, f')"
    using bound by (cases "document_cls retrieve f") auto
  have r: "rf_reference_cls f' = rf_reference_cls f"
    using document_cls_reference_cls [of retrieve f] d by simp
  note d' = document_cls_again [OF d]
  have 1: "fst (ReferenceField_deserialize retrieve parent f v) = Inr (RefV (rf_reference_cls f) T x)"
    using raw d d' parsed r by (auto simp: ReferenceField_deserialize_def wrap_reference_def)
  have 2: "ReferenceField_serialize_to_mongo f (RefV (rf_reference_cls f) T x) = Inr x"
    by (simp add: ReferenceField_serialize_to_mongo_def serialize_to_mongo_def)
  have 3: "\<forall>c pk. issubclass c T \<longrightarrow>
            fst (ReferenceField_deserialize retrieve parent f (DocV c False pk)) =
              Inl (ValidationError (MsgList
                [Msg ''Cannot reference a document that has not been created yet.'' []]))"
    using d by (simp add: ReferenceField_deserialize_def)
  from 1 2 3 show ?thesis by blast
qed


theorem ReferenceField_identifier_reference_witness:
  "fst (ReferenceField_deserialize
          (\<lambda>n. if n = StrV ''User'' then Inr (PyClass ''User'' ''user'' [])
                else Inl (NotRegisteredDocumentError ''User''))
          (\<lambda>v. Inr v)
          \<lparr>rf_document = ''User'', rf_document_cls = None,
             rf_reference_cls = PyClass ''Reference'' [] [], rf_allow_none = False\<rparr>
          (OidV ''5672d47b1d41c88dcd37ef05'')) =
     Inr (RefV (PyClass ''Reference'' [] []) (PyClass ''User'' ''user'' [])
            (OidV ''5672d47b1d41c88dcd37ef05'')) \<and>
   ReferenceField_serialize_to_mongo
      \<lparr>rf_document = ''User'', rf_document_cls = None,
         rf_reference_cls = PyClass ''Reference'' [] [], rf_allow_none = False\<rparr>
      (RefV (PyClass ''Reference'' [] []) (PyClass ''User'' ''user'' [])
            (OidV ''5672d47b1d41c88dcd37ef05'')) = Inr (OidV ''5672d47b1d41c88dcd37ef05'') \<and>
   fst (ReferenceField_deserialize
          (\<lambda>n. if n = StrV ''User'' then Inr (PyClass ''User'' ''user'' [])
                else Inl (NotRegisteredDocumentError ''User''))
          (\<lambda>v. Inr v)
          \<lparr>rf_document = ''User'', rf_document_cls = None,
             rf_reference_cls = PyClass ''Reference'' [] [], rf_allow_none = False\<rparr>
          (DocV (PyClass ''User'' ''user'' []) False NoneV)) =
     Inl (ValidationError (MsgList
       [Msg ''Cannot reference a document that has not been created yet.'' []]))"
proof -
  define retrieve :: "pyval \<Rightarrow> exn + pyclass"
    where "retrieve = (\<lambda>n. if n = StrV ''User'' then Inr (PyClass ''User'' ''user'' [])
                else Inl (NotRegisteredDocumentError ''User''))"
  define parent :: "pyval \<Rightarrow> exn + pyval" where "parent = (\<lambda>v. Inr v)"
  define f where "f = \<lparr>rf_document = ''User'', rf_document_cls = None,
             rf_reference_cls = PyClass ''Reference'' [] [], rf_allow_none = False\<rparr>"
  define T where "T = PyClass ''User'' ''user'' []"
  define x where "x = OidV ''5672d47b1d41c88dcd37ef05''"
  have b: "fst (document_cls retrieve f) = Inr T"
    by (simp add: document_cls_def retrieve_def f_def T_def)
  have r: "x = OidV ''5672d47b1d41c88dcd37ef05'' \<or> x = StrV ''5672d47b1d41c88dcd37ef05''"
    by (simp add: x_def)
  have p: "parent x = Inr x" by (simp add: parent_def)
  have s: "issubclass T T" by (simp add: T_def)
  have rc: "rf_reference_cls f = PyClass ''Reference'' [] []" by (simp add: f_def)
  from ReferenceField_identifier_reference [of retrieve f T x "''5672d47b1d41c88dcd37ef05''" parent x, OF b r p] s
  have "fst (ReferenceField_deserialize retrieve parent f x) = Inr (RefV (rf_reference_cls f) T x) \<and>
        ReferenceField_serialize_to_mongo f (RefV (rf_reference_cls f) T x) = Inr x \<and>
        fst (ReferenceField_deserialize retrieve parent f (DocV T False NoneV)) =
              Inl (ValidationError (MsgList
                [Msg ''Cannot reference a document that has not been created yet.'' []]))"
    by blast
  thus ?thesis unfolding rc unfolding retrieve_def parent_def f_def T_def x_def .
qed

text \<open>
  Claim C10. The generic reference field accepts a dictionary only if its key set is exactly
  \<open>{'cls', 'id'}\<close>: with any other key set (a key missing, or both keys and one more) it
  raises the same \<open>ValidationError\<close>, before the identifier or the class is looked at.
\<close>

theorem GenericReferenceField_key_set_exact:
  assumes "dict_keys d \<noteq> {KStr ''cls'', KStr ''id''}"
  shows "GenericReferenceField_deserialize retrieve ObjectId reference_cls (DictV d) =
           Inl (ValidationError (MsgList
             [Msg ''Generic reference must have `id` and `cls` fields.'' []]))"
  using assms by (simp add: GenericReferenceField_deserialize_def)

theorem GenericReferenceField_key_set_exact_witness:
  "GenericReferenceField_deserialize
      (\<lambda>n. Inr (PyClass ''User'' ''user'' [])) (\<lambda>v. Inr v) (PyClass ''Reference'' [] [])
      (DictV [(KStr ''id'', OidV ''5672d47b1d41c88dcd37ef05''), (KStr ''cls'', StrV ''User''),
              (KStr ''extra'', IntV 42)]) =
     Inl (ValidationError (MsgList
       [Msg ''Generic reference must have `id` and `cls` fields.'' []])) \<and>
   GenericReferenceField_deserialize
      (\<lambda>n. Inr (PyClass ''User'' ''user'' [])) (\<lambda>v. Inr v) (PyClass ''Reference'' [] [])
      (DictV [(KStr ''id'', OidV ''5672d47b1d41c88dcd37ef05'')]) =
     Inl (ValidationError (MsgList
       [Msg ''Generic reference must have `id` and `cls` fields.'' []]))"
proof -
  define d1 where "d1 = [(KStr ''id'', OidV ''5672d47b1d41c88dcd37ef05''), (KStr ''cls'', StrV ''User''),
              (KStr ''extra'', IntV 42)]"
  define d2 where "d2 = [(KStr ''id'', OidV ''5672d47b1d41c88dcd37ef05'')]"
  have "KStr ''extra'' \<in> dict_keys d1" by (simp add: dict_keys_def d1_def)
  moreover have "KStr ''extra'' \<notin> {KStr ''cls'', KStr ''id''}" by simp
  ultimately have k1: "dict_keys d1 \<noteq> {KStr ''cls'', KStr ''id''}" by metis
  have "KStr ''cls'' \<notin> dict_keys d2" by (simp add: dict_keys_def d2_def)
  moreover have "KStr ''cls'' \<in> {KStr ''cls'', KStr ''id''}" by simp
  ultimately have k2: "dict_keys d2 \<noteq> {KStr ''cls'', KStr ''id''}" by metis
  show ?thesis
    using GenericReferenceField_key_set_exact [of d1, OF k1]
          GenericReferenceField_key_set_exact [of d2, OF k2]
    unfolding d1_def d2_def by blast
qed

text \<open>
  Claim C1, where the code departs from it. When the dictionary has both keys and the
  constructor of \<open>ObjectId\<close> raises an exception that is not a \<open>ValueError\<close>, that
  exception leaves \<open>_deserialize\<close> as it is: \<open>except ValueError\<close> does not turn it into a
  \<open>ValidationError\<close>. \<open>bson.ObjectId\<close> raises \<open>InvalidId\<close> on a string that is not an
  identifier and \<open>TypeError\<close> on a value of another type, never \<open>ValueError\<close>.
\<close>

theorem GenericReferenceField_unparsable_id_escapes:
  assumes "dict_keys d = {KStr ''cls'', KStr ''id''}"
    and "map_of d (KStr ''id'') = Some raw_id"
    and "ObjectId raw_id = Inl e"
    and "e \<noteq> ValueError"
  shows "GenericReferenceField_deserialize retrieve ObjectId reference_cls (DictV d) = Inl e"
  using assms by (cases e) (simp_all add: GenericReferenceField_deserialize_def dict_getitem_def)

theorem GenericReferenceField_unparsable_id_escapes_witness:
  "GenericReferenceField_deserialize
      (\<lambda>n. Inr (PyClass ''User'' ''user'' []))
      (\<lambda>v. case v of OidV s \<Rightarrow> Inr (OidV s) | _ \<Rightarrow> Inl InvalidId)
      (PyClass ''Reference'' [] [])
      (DictV [(KStr ''id'', StrV ''not_an_id''), (KStr ''cls'', StrV ''User'')]) = Inl InvalidId"
proof -
  define d where "d = [(KStr ''id'', StrV ''not_an_id''), (KStr ''cls'', StrV ''User'')]"
  define ObjectId :: "pyval \<Rightarrow> exn + pyval"
    where "ObjectId = (\<lambda>v. case v of OidV s \<Rightarrow> Inr (OidV s) | _ \<Rightarrow> Inl InvalidId)"
  have k: "dict_keys d = {KStr ''cls'', KStr ''id''}"
    by (simp add: dict_keys_def d_def insert_commute)
  have m: "map_of d (KStr ''id'') = Some (StrV ''not_an_id'')" by (simp add: d_def)
  have o: "ObjectId (StrV ''not_an_id'') = Inl InvalidId" by (simp add: ObjectId_def)
  have n: "InvalidId \<noteq> ValueError" by simp
  show ?thesis
    using GenericReferenceField_unparsable_id_escapes
            [of d "StrV ''not_an_id''" ObjectId InvalidId, OF k m o n]
    unfolding d_def ObjectId_def .
qed

section \<open>Properties of the embedded field\<close>

text \<open>
  Claim C6. For an embedded field whose embedded document class has a non-empty offspring
  set: deserializing a dictionary whose \<open>'cls'\<close> entry is the name of the offspring \<open>B\<close>
  (the class the registry holds under that name), with keyword fields that the
  constructor of \<open>B\<close> loads, yields an instance of exactly \<open>B\<close>, built from the other
  entries; deserializing a dictionary whose \<open>'cls'\<close> entry names no offspring fails with
  the \<open>ValidationError\<close> "Unknown document".
\<close>

theorem EmbeddedField_discriminator:
  assumes resolved: "fst (embedded_document_cls env f) = Inr ecls"
    and offspring: "opts_offspring env ecls \<noteq> []"
  shows "(B \<in> set (opts_offspring env ecls) \<and>
          map_of d (KStr ''cls'') = Some (StrV (cls_name B)) \<and>
          opts_retrieve_embedded_document env ecls (StrV (cls_name B)) = Inr B \<and>
          list_all (\<lambda>p. is_str_key (fst p)) d \<and>
          load_kwargs env B (dict_pop d (KStr ''cls'')) = Inr data
          \<longrightarrow> fst (EmbeddedField_deserialize env f (DictV d)) = Inr (EmbV B data)) \<and>
         (map_of d (KStr ''cls'') = Some nm \<and>
          (\<forall>o' \<in> set (opts_offspring env ecls). StrV (cls_name o') \<noteq> nm)
          \<longrightarrow> fst (EmbeddedField_deserialize env f (DictV d)) =
                Inl (ValidationError (MsgList [Msg ''Unknown document `{document}`.'' [nm]])))"
proof -
  obtain f' where r: "embedded_document_cls env f = (Inr ecls, f')"
    using resolved by (cases "embedded_document_cls env f") auto
  have str: "list_all (\<lambda>p. is_str_key (fst p)) d \<Longrightarrow>
             list_all (\<lambda>p. is_str_key (fst p)) (dict_pop d (KStr ''cls''))"
    by (simp add: dict_pop_def list_all_iff)
  have 1: "B \<in> set (opts_offspring env ecls) \<and>
          map_of d (KStr ''cls'') = Some (StrV (cls_name B)) \<and>
          opts_retrieve_embedded_document env ecls (StrV (cls_name B)) = Inr B \<and>
          list_all (\<lambda>p. is_str_key (fst p)) d \<and>
          load_kwargs env B (dict_pop d (KStr ''cls'')) = Inr data
          \<longrightarrow> fst (EmbeddedField_deserialize env f (DictV d)) = Inr (EmbV B data)"
  proof
    assume a: "B \<in> set (opts_offspring env ecls) \<and>
          map_of d (KStr ''cls'') = Some (StrV (cls_name B)) \<and>
          opts_retrieve_embedded_document env ecls (StrV (cls_name B)) = Inr B \<and>
          list_all (\<lambda>p. is_str_key (fst p)) d \<and>
          load_kwargs env B (dict_pop d (KStr ''cls'')) = Inr data"
    hence ex: "list_ex (\<lambda>o'. StrV (cls_name o') = StrV (cls_name B)) (opts_offspring env ecls)"
      by (auto simp: list_ex_iff)
    from a str have i: "instantiate env B (dict_pop d (KStr ''cls'')) = Inr (EmbV B data)"
      by (simp add: instantiate_def)
    from a r offspring ex i show "fst (EmbeddedField_deserialize env f (DictV d)) = Inr (EmbV B data)"
      by (simp add: EmbeddedField_deserialize_def Let_def)
  qed
  have 2: "map_of d (KStr ''cls'') = Some nm \<and>
          (\<forall>o' \<in> set (opts_offspring env ecls). StrV (cls_name o') \<noteq> nm)
          \<longrightarrow> fst (EmbeddedField_deserialize env f (DictV d)) =
                Inl (ValidationError (MsgList [Msg ''Unknown document `{document}`.'' [nm]]))"
  proof
    assume a: "map_of d (KStr ''cls'') = Some nm \<and>
          (\<forall>o' \<in> set (opts_offspring env ecls). StrV (cls_name o') \<noteq> nm)"
    hence nex: "\<not> list_ex (\<lambda>o'. StrV (cls_name o') = nm) (opts_offspring env ecls)"
      by (auto simp: list_ex_iff)
    from a r offspring nex show "fst (EmbeddedField_deserialize env f (DictV d)) =
                Inl (ValidationError (MsgList [Msg ''Unknown document `{document}`.'' [nm]]))"
      by (simp add: EmbeddedField_deserialize_def Let_def)
  qed
  from 1 2 show ?thesis by blast
qed

text \<open>
  Claim C9. When the embedded document class has a non-empty offspring set and the input
  dictionary has the key \<open>'cls'\<close>, the caller's dictionary is, after the call, the input
  without its \<open>'cls'\<close> entry (every other entry as before), whatever the outcome of the
  deserialization; in particular when it fails on a discriminator that names no offspring.
\<close>

theorem EmbeddedField_pops_discriminator:
  assumes resolved: "fst (embedded_document_cls env f) = Inr ecls"
    and offspring: "opts_offspring env ecls \<noteq> []"
    and present: "KStr ''cls'' \<in> dict_keys d"
  shows "fst (snd (EmbeddedField_deserialize env f (DictV d))) = DictV (dict_pop d (KStr ''cls'')) \<and>
         KStr ''cls'' \<notin> dict_keys (dict_pop d (KStr ''cls'')) \<and>
         (\<forall>k. k \<noteq> KStr ''cls'' \<longrightarrow>
              map_of (dict_pop d (KStr ''cls'')) k = map_of d k) \<and>
         (\<forall>nm. map_of d (KStr ''cls'') = Some nm \<and>
               (\<forall>o' \<in> set (opts_offspring env ecls). StrV (cls_name o') \<noteq> nm) \<longrightarrow>
               fst (EmbeddedField_deserialize env f (DictV d)) =
                 Inl (ValidationError (MsgList [Msg ''Unknown document `{document}`.'' [nm]])))"
proof -
  obtain f' where r: "embedded_document_cls env f = (Inr ecls, f')"
    using resolved by (cases "embedded_document_cls env f") auto
  from present obtain nm where nm: "map_of d (KStr ''cls'') = Some nm"
    by (cases "map_of d (KStr ''cls'')") (auto simp: dict_keys_def map_of_eq_None_iff)
  have 1: "fst (snd (EmbeddedField_deserialize env f (DictV d))) = DictV (dict_pop d (KStr ''cls''))"
    using r offspring nm
    by (simp add: EmbeddedField_deserialize_def Let_def split: sum.splits exn.splits)
  have 2: "KStr ''cls'' \<notin> dict_keys (dict_pop d (KStr ''cls''))"
    by (auto simp: dict_keys_def dict_pop_def)
  have 3: "\<forall>k. k \<noteq> KStr ''cls'' \<longrightarrow> map_of (dict_pop d (KStr ''cls'')) k = map_of d k"
  proof (intro allI impI)
    fix k :: key assume "k \<noteq> KStr ''cls''"
    thus "map_of (dict_pop d (KStr ''cls'')) k = map_of d k"
      unfolding dict_pop_def by (induction d) auto
  qed
  have 4: "\<forall>nm. map_of d (KStr ''cls'') = Some nm \<and>
               (\<forall>o' \<in> set (opts_offspring env ecls). StrV (cls_name o') \<noteq> nm) \<longrightarrow>
               fst (EmbeddedField_deserialize env f (DictV d)) =
                 Inl (ValidationError (MsgList [Msg ''Unknown document `{document}`.'' [nm]]))"
  proof (intro allI impI)
    fix nm' assume a: "map_of d (KStr ''cls'') = Some nm' \<and>
               (\<forall>o' \<in> set (opts_offspring env ecls). StrV (cls_name o') \<noteq> nm')"
    hence nex: "\<not> list_ex (\<lambda>o'. StrV (cls_name o') = nm') (opts_offspring env ecls)"
      by (auto simp: list_ex_iff)
    from a r offspring nex show "fst (EmbeddedField_deserialize env f (DictV d)) =
                Inl (ValidationError (MsgList [Msg ''Unknown document `{document}`.'' [nm']]))"
      by (simp add: EmbeddedField_deserialize_def Let_def)
  qed
  from 1 2 3 4 show ?thesis by blast
qed

theorem EmbeddedField_discriminator_witness:
  "fst (EmbeddedField_deserialize
          \<lparr>retrieve_embedded_document = (\<lambda>n. Inr (PyClass ''Shape'' [] [])),
             opts_offspring = (\<lambda>c. [PyClass ''A'' [] [PyClass ''Shape'' [] []],
                                     PyClass ''B'' [] [PyClass ''Shape'' [] []]]),
             opts_retrieve_embedded_document =
               (\<lambda>c n. if n = StrV ''B'' then Inr (PyClass ''B'' [] [PyClass ''Shape'' [] []])
                      else Inl (NotRegisteredDocumentError ''unknown'')),
             load_kwargs = (\<lambda>c kw. Inr kw)\<rparr>
          \<lparr>ef_embedded_document = ''Shape'', ef_embedded_document_cls = None\<rparr>
          (DictV [(KStr ''cls'', StrV ''B''), (KStr ''side'', IntV 3)])) =
     Inr (EmbV (PyClass ''B'' [] [PyClass ''Shape'' [] []]) [(KStr ''side'', IntV 3)]) \<and>
   fst (EmbeddedField_deserialize
          \<lparr>retrieve_embedded_document = (\<lambda>n. Inr (PyClass ''Shape'' [] [])),
             opts_offspring = (\<lambda>c. [PyClass ''A'' [] [PyClass ''Shape'' [] []],
                                     PyClass ''B'' [] [PyClass ''Shape'' [] []]]),
             opts_retrieve_embedded_document =
               (\<lambda>c n. if n = StrV ''B'' then Inr (PyClass ''B'' [] [PyClass ''Shape'' [] []])
                      else Inl (NotRegisteredDocumentError ''unknown'')),
             load_kwargs = (\<lambda>c kw. Inr kw)\<rparr>
          \<lparr>ef_embedded_document = ''Shape'', ef_embedded_document_cls = None\<rparr>
          (DictV [(KStr ''cls'', StrV ''C''), (KStr ''side'', IntV 3)])) =
     Inl (ValidationError (MsgList [Msg ''Unknown document `{document}`.'' [StrV ''C'']]))"
proof -
  define Shape where "Shape = PyClass ''Shape'' [] []"
  define A where "A = PyClass ''A'' [] [Shape]"
  define B where "B = PyClass ''B'' [] [Shape]"
  define env where "env = \<lparr>retrieve_embedded_document = (\<lambda>n. Inr Shape),
             opts_offspring = (\<lambda>c. [A, B]),
             opts_retrieve_embedded_document =
               (\<lambda>c n. if n = StrV ''B'' then Inr B
                      else Inl (NotRegisteredDocumentError ''unknown'')),
             load_kwargs = (\<lambda>c kw. Inr kw)\<rparr>"
  define f where "f = \<lparr>ef_embedded_document = ''Shape'', ef_embedded_document_cls = None\<rparr>"
  define d1 where "d1 = [(KStr ''cls'', StrV ''B''), (KStr ''side'', IntV 3)]"
  define d2 where "d2 = [(KStr ''cls'', StrV ''C''), (KStr ''side'', IntV 3)]"
  have r: "fst (embedded_document_cls env f) = Inr Shape"
    by (simp add: embedded_document_cls_def env_def f_def)
  have o: "opts_offspring env Shape \<noteq> []" by (simp add: env_def)
  have h1: "B \<in> set (opts_offspring env Shape) \<and>
          map_of d1 (KStr ''cls'') = Some (StrV (cls_name B)) \<and>
          opts_retrieve_embedded_document env Shape (StrV (cls_name B)) = Inr B \<and>
          list_all (\<lambda>p. is_str_key (fst p)) d1 \<and>
          load_kwargs env B (dict_pop d1 (KStr ''cls'')) = Inr [(KStr ''side'', IntV 3)]"
    by (simp add: env_def d1_def B_def dict_pop_def is_str_key_def)
  have h2: "map_of d2 (KStr ''cls'') = Some (StrV ''C'') \<and>
          (\<forall>o' \<in> set (opts_offspring env Shape). StrV (cls_name o') \<noteq> StrV ''C'')"
    by (simp add: env_def d2_def A_def B_def)
  from EmbeddedField_discriminator [of env f Shape B d1 "[(KStr ''side'', IntV 3)]", OF r o] h1
  have c1: "fst (EmbeddedField_deserialize env f (DictV d1)) = Inr (EmbV B [(KStr ''side'', IntV 3)])"
    by blast
  from EmbeddedField_discriminator [of env f Shape _ d2 _ "StrV ''C''", OF r o] h2
  have c2: "fst (EmbeddedField_deserialize env f (DictV d2)) =
     Inl (ValidationError (MsgList [Msg ''Unknown document `{document}`.'' [StrV ''C'']]))"
    by blast
  from c1 c2 show ?thesis
    unfolding env_def f_def d1_def d2_def A_def B_def Shape_def by blast
qed

theorem EmbeddedField_pops_discriminator_witness:
  "fst (snd (EmbeddedField_deserialize
          \<lparr>retrieve_embedded_document = (\<lambda>n. Inr (PyClass ''Shape'' [] [])),
             opts_offspring = (\<lambda>c. [PyClass ''A'' [] [PyClass ''Shape'' [] []],
                                     PyClass ''B'' [] [PyClass ''Shape'' [] []]]),
             opts_retrieve_embedded_document =
               (\<lambda>c n. Inl (NotRegisteredDocumentError ''unknown'')),
             load_kwargs = (\<lambda>c kw. Inr kw)\<rparr>
          \<lparr>ef_embedded_document = ''Shape'', ef_embedded_document_cls = None\<rparr>
          (DictV [(KStr ''cls'', StrV ''C''), (KStr ''side'', IntV 3)]))) =
     DictV [(KStr ''side'', IntV 3)] \<and>
   fst (EmbeddedField_deserialize
          \<lparr>retrieve_embedded_document = (\<lambda>n. Inr (PyClass ''Shape'' [] [])),
             opts_offspring = (\<lambda>c. [PyClass ''A'' [] [PyClass ''Shape'' [] []],
                                     PyClass ''B'' [] [PyClass ''Shape'' [] []]]),
             opts_retrieve_embedded_document =
               (\<lambda>c n. Inl (NotRegisteredDocumentError ''unknown'')),
             load_kwargs = (\<lambda>c kw. Inr kw)\<rparr>
          \<lparr>ef_embedded_document = ''Shape'', ef_embedded_document_cls = None\<rparr>
          (DictV [(KStr ''cls'', StrV ''C''), (KStr ''side'', IntV 3)])) =
     Inl (ValidationError (MsgList [Msg ''Unknown document `{document}`.'' [StrV ''C'']]))"
proof -
  define Shape where "Shape = PyClass ''Shape'' [] []"
  define A where "A = PyClass ''A'' [] [Shape]"
  define B where "B = PyClass ''B'' [] [Shape]"
  define env where "env = \<lparr>retrieve_embedded_document = (\<lambda>n. Inr Shape),
             opts_offspring = (\<lambda>c. [A, B]),
             opts_retrieve_embedded_document =
               (\<lambda>c n. Inl (NotRegisteredDocumentError ''unknown'')),
             load_kwargs = (\<lambda>c kw. Inr kw)\<rparr>"
  define f where "f = \<lparr>ef_embedded_document = ''Shape'', ef_embedded_document_cls = None\<rparr>"
  define d where "d = [(KStr ''cls'', StrV ''C''), (KStr ''side'', IntV 3)]"
  have r: "fst (embedded_document_cls env f) = Inr Shape"
    by (simp add: embedded_document_cls_def env_def f_def)
  have o: "opts_offspring env Shape \<noteq> []" by (simp add: env_def)
  have p: "KStr ''cls'' \<in> dict_keys d" by (simp add: dict_keys_def d_def)
  have pop: "dict_pop d (KStr ''cls'') = [(KStr ''side'', IntV 3)]"
    by (simp add: dict_pop_def d_def)
  have h: "map_of d (KStr ''cls'') = Some (StrV ''C'') \<and>
          (\<forall>o' \<in> set (opts_offspring env Shape). StrV (cls_name o') \<noteq> StrV ''C'')"
    by (simp add: env_def d_def A_def B_def)
  from EmbeddedField_pops_discriminator [of env f Shape d, OF r o p] h
  have "fst (snd (EmbeddedField_deserialize env f (DictV d))) = DictV (dict_pop d (KStr ''cls'')) \<and>
        fst (EmbeddedField_deserialize env f (DictV d)) =
     Inl (ValidationError (MsgList [Msg ''Unknown document `{document}`.'' [StrV ''C'']]))"
    by blast
  thus ?thesis unfolding pop unfolding env_def f_def d_def A_def B_def Shape_def .
qed

section \<open>Properties of the scalar codecs\<close>

subsection \<open>The 128-bit decimal\<close>

lemma ndigits_pos: "0 < ndigits n"
  by (subst ndigits.simps) simp
















subsection \<open>Conversion to a time zone\<close>



lemma wall_seconds_minutes:
  "wall_seconds d = ((toordinal d * 24 + hour d) * 60 + minute d) * 60 + second d"
  by (simp add: wall_seconds_def)









lemma valid_datetime_tzinfo [simp]: "valid_datetime (d\<lparr>tzinfo := z\<rparr>) = valid_datetime d"
  by (simp add: valid_datetime_def)

lemma wall_seconds_tzinfo [simp]: "wall_seconds (d\<lparr>tzinfo := z\<rparr>) = wall_seconds d"
  by (simp add: wall_seconds_def toordinal_def)



subsection \<open>The storage round trip\<close>









section \<open>Properties of the schema cache\<close>

text \<open>
  Claim C2, where the code departs from it. On a schema with one plain field and an empty
  cache, \<open>as_marshmallow_schema(check_unknown_fields=False)\<close> called twice with no
  override arguments makes two classes (identities 0 and 1): the first call stores its
  \<open>meta\<close> after \<open>setdefault('unknown', EXCLUDE)\<close> has changed it, and the second call's
  empty \<open>meta\<close> is not equal to it. A call with the different argument
  \<open>meta={'unknown': EXCLUDE}\<close> is given the first class back.
\<close>

theorem as_marshmallow_schema_equal_calls_distinct:
  "fst (as_marshmallow_schema
          \<lparr>schema_cls = PyClass ''UserSchema'' [] [],
             schema_fields = [(''name'', BaseField_as_marshmallow_field)],
             MA_BASE_SCHEMA_CLS = PyClass ''Schema'' [] []\<rparr>
          None (PyClass ''Schema'' [] []) False False None
          \<lparr>buckets = [], direct = [], made = 0\<rparr>) =
     Inr (MaSchema 0 ''MarshmallowUserSchema'' (PyClass ''Schema'' [] [])
            [(''name'', NsField (MaField [])), (''get_attribute'', NsGetAttribute),
             (''Meta'', NsMeta [(KStr ''unknown'', StrV ''exclude'')])]) \<and>
   fst (as_marshmallow_schema
          \<lparr>schema_cls = PyClass ''UserSchema'' [] [],
             schema_fields = [(''name'', BaseField_as_marshmallow_field)],
             MA_BASE_SCHEMA_CLS = PyClass ''Schema'' [] []\<rparr>
          None (PyClass ''Schema'' [] []) False False None
          (snd (as_marshmallow_schema
                  \<lparr>schema_cls = PyClass ''UserSchema'' [] [],
                     schema_fields = [(''name'', BaseField_as_marshmallow_field)],
                     MA_BASE_SCHEMA_CLS = PyClass ''Schema'' [] []\<rparr>
                  None (PyClass ''Schema'' [] []) False False None
                  \<lparr>buckets = [], direct = [], made = 0\<rparr>))) =
     Inr (MaSchema 1 ''MarshmallowUserSchema'' (PyClass ''Schema'' [] [])
            [(''name'', NsField (MaField [])), (''get_attribute'', NsGetAttribute),
             (''Meta'', NsMeta [(KStr ''unknown'', StrV ''exclude'')])]) \<and>
   fst (as_marshmallow_schema
          \<lparr>schema_cls = PyClass ''UserSchema'' [] [],
             schema_fields = [(''name'', BaseField_as_marshmallow_field)],
             MA_BASE_SCHEMA_CLS = PyClass ''Schema'' [] []\<rparr>
          None (PyClass ''Schema'' [] []) False False (Some [(KStr ''unknown'', StrV ''exclude'')])
          (snd (as_marshmallow_schema
                  \<lparr>schema_cls = PyClass ''UserSchema'' [] [],
                     schema_fields = [(''name'', BaseField_as_marshmallow_field)],
                     MA_BASE_SCHEMA_CLS = PyClass ''Schema'' [] []\<rparr>
                  None (PyClass ''Schema'' [] []) False False None
                  \<lparr>buckets = [], direct = [], made = 0\<rparr>))) =
     Inr (MaSchema 0 ''MarshmallowUserSchema'' (PyClass ''Schema'' [] [])
            [(''name'', NsField (MaField [])), (''get_attribute'', NsGetAttribute),
             (''Meta'', NsMeta [(KStr ''unknown'', StrV ''exclude'')])])"
  by (simp add: as_marshmallow_schema_def bucket_of_def BaseField_as_marshmallow_field_def
      dict_get_def dict_changed_def dict_keys_def dict_setdefault_def Let_def)

lemma map_of_dict_set: "map_of (dict_set d k v) k = Some v"
  by (induction d) auto

text \<open>
  \<open>Schema.as_marshmallow_schema\<close> of \<open>schema.py\<close> does cache: a call that returns a
  schema leaves a state in which the same call returns the same schema.
\<close>

lemma Schema_as_marshmallow_schema_cached:
  assumes "Schema_as_marshmallow_schema self mongo_world st = (Inr s, st1)"
  shows "Schema_as_marshmallow_schema self mongo_world st1 = (Inr s, st1)"
proof (cases "map_of (direct st) (schema_cls self, MA_BASE_SCHEMA_CLS self, mongo_world)")
  case (Some a)
  with assms show ?thesis by (simp add: Schema_as_marshmallow_schema_def)
next
  case None
  with assms have "map_of (direct st1) (schema_cls self, MA_BASE_SCHEMA_CLS self, mongo_world) = Some s"
    by (auto simp: Schema_as_marshmallow_schema_def Let_def map_of_dict_set
        split: prod.splits sum.splits)
  thus ?thesis by (simp add: Schema_as_marshmallow_schema_def)
qed

lemma project_fields_no_params:
  assumes "\<forall>f \<in> snd ` set flds. keeps_state f"
  shows "snd (project_fields flds [] b c w nmspc st) = ([], st)"
  using assms
proof (induction flds arbitrary: nmspc)
  case Nil
  then show ?case by simp
next
  case (Cons a flds)
  obtain name f where a: "a = (name, f)" by (cases a)
  from Cons.prems a have k: "keeps_state f" and rest: "\<forall>f \<in> snd ` set flds. keeps_state f"
    by auto
  obtain r entry st' where c: "f (dict_get [] (KStr name)) b c w st = (r, entry, st')"
    by (cases "f (dict_get [] (KStr name)) b c w st") auto
  from k c have st': "st' = st" unfolding keeps_state_def by (metis snd_conv)
  have dc: "dict_changed [] (KStr name) entry = []" by (simp add: dict_changed_def dict_keys_def)
  show ?case
  proof (cases r)
    case (Inl e)
    with a c st' dc show ?thesis by simp
  next
    case (Inr m)
    with a c st' dc Cons.IH [OF rest] show ?thesis by simp
  qed
qed

lemma find_schema_append:
  "find_schema b cm = None \<Longrightarrow>
   find_schema (b @ [((fst cm, snd cm), s)]) cm =
     (if py_eq (DictV (fst cm)) (DictV (fst cm)) \<and> py_eq (DictV (snd cm)) (DictV (snd cm))
      then Some s else None)"
  by (induction b cm rule: find_schema.induct) (auto split: if_splits)

text \<open>
  So does \<open>BaseSchema.as_marshmallow_schema\<close> when unknown fields are checked and no
  override is given, on a schema whose fields generate no nested schema.
\<close>

lemma as_marshmallow_schema_cached_without_overrides:
  assumes keep: "\<forall>f \<in> snd ` set (schema_fields self). keeps_state f"
    and first: "as_marshmallow_schema self None base True w None st = (Inr s, st1)"
  shows "as_marshmallow_schema self None base True w None st1 = (Inr s, st1)"
proof (cases "find_schema (bucket_of st (schema_cls self, base, True, w)) ([], [])")
  case (Some a)
  with first show ?thesis by (simp add: as_marshmallow_schema_def)
next
  case None
  obtain r where p: "project_fields (schema_fields self) [] (Some base) (Some True) w [] st = (r, [], st)"
    using project_fields_no_params [OF keep, of "Some base" "Some True" w "[]" st]
    by (cases "project_fields (schema_fields self) [] (Some base) (Some True) w [] st") auto
  from first None p obtain nmspc where r: "r = Inr nmspc"
    by (cases r) (auto simp: as_marshmallow_schema_def Let_def)
  from first None p r
  have st1: "st1 = st\<lparr>buckets := dict_set (buckets st) (schema_cls self, base, True, w)
                         (bucket_of st (schema_cls self, base, True, w) @ [(([], []), s)]),
                       made := made st + 1\<rparr>"
    by (auto simp: as_marshmallow_schema_def Let_def)
  have b1: "bucket_of st1 (schema_cls self, base, True, w) =
              bucket_of st (schema_cls self, base, True, w) @ [(([], []), s)]"
    by (simp add: st1 bucket_of_def map_of_dict_set)
  have "find_schema (bucket_of st1 (schema_cls self, base, True, w)) ([], []) = Some s"
    unfolding b1 using find_schema_append [OF None, of s] by (simp add: dict_keys_def)
  thus ?thesis by (simp add: as_marshmallow_schema_def)
qed

end
